theory Spec2Isabelle
  imports Complex_Main
begin

section \<open>Values shared by the models\<close>

text \<open>
  JavaScript numbers that arrive through JSON are finite; the program compares them with
  constants, takes minima and one square root, so they are modelled as real numbers with
  exact arithmetic. Dates are milliseconds since the epoch. Strings are sequences of code units below 256.
  Every handler reads the clock once (\<open>now\<close>); the several \<open>new Date()\<close> calls of
  one handler are given that one reading.
\<close>

type_synonym number = real
type_synonym date = int
type_synonym objectId = string

datatype json =
    JString string
  | JNumber number
  | JBool bool
  | JNull
  | JArray "json list"
  | JObject "(string \<times> json) list"

datatype error = ValidationError

subsection \<open>utils/validators.js\<close>

definition isWhiteSpace :: "char \<Rightarrow> bool" where
  "isWhiteSpace c =
     (let n = (of_char c :: nat)
      in n = 9 \<or> n = 10 \<or> n = 11 \<or> n = 12 \<or> n = 13 \<or> n = 32 \<or> n = 160)"

definition trim :: "string \<Rightarrow> string" where
  "trim s = rev (dropWhile isWhiteSpace (rev (dropWhile isWhiteSpace s)))"

text \<open>\<^verbatim>\<open>value.trim().replace(/[<>]/g, "")\<close> on a string.\<close>

definition sanitizeText :: "string \<Rightarrow> string" where
  "sanitizeText v = filter (\<lambda>c. c \<noteq> CHR ''<'' \<and> c \<noteq> CHR ''>'') (trim v)"


definition isHexDigit :: "char \<Rightarrow> bool" where
  "isHexDigit c =
     (let n = (of_char c :: nat)
      in (48 \<le> n \<and> n \<le> 57) \<or> (97 \<le> n \<and> n \<le> 102) \<or> (65 \<le> n \<and> n \<le> 70))"

text \<open>\<^verbatim>\<open>/^[0-9a-fA-F]{24}$/.test(id)\<close>\<close>

definition isValidObjectId :: "string \<Rightarrow> bool" where
  "isValidObjectId i = (length i = 24 \<and> list_all isHexDigit i)"



section \<open>models/Event.js\<close>

datatype event_type =
    SOS | ALERT | DEVICE_ONLINE | DEVICE_OFFLINE | LOW_BATTERY | FALL_DETECTED
  | OBSTACLE_DETECTED | GPS_LOST | MAINTENANCE_REQUIRED | USER_LOGIN | USER_LOGOUT
  | COMMAND_SENT | COMMAND_RECEIVED | SYSTEM_ERROR

datatype severity = low | medium | high | critical

datatype status = active | acknowledged | resolved | ignored

record acknowledgment =
  acknowledgedBy :: objectId
  acknowledgedAt :: date
  ack_note :: string

record resolutionAction =
  action :: string
  action_timestamp :: date
  performedBy :: objectId

record resolution =
  resolvedAt :: date
  resolvedBy :: objectId
  resolutionNote :: string
  resolutionActions :: "resolutionAction list"

record escalation =
  escalated :: bool
  escalatedAt :: "date option"
  escalatedTo :: "objectId option"
  escalationReason :: "string option"
  escalationLevel :: int

record notifications =
  fcmSent :: bool
  fcmTimestamp :: "date option"
  fcmResponse :: "string option"
  fcmError :: "string option"

text \<open>The metadata fields the modelled handlers write; the other schema fields stay unset.\<close>

record metadata =
  emergencyType :: "string option"
  command :: "string option"
  commandParameters :: "(string \<times> json) list"
  alertThreshold :: "number option"
  alertValue :: "number option"

text \<open>
  An event document. \<open>location\<close> is the coordinates array \<open>[longitude, latitude]\<close>,
  \<open>None\<close> when no location was set. Title and description are constant texts and are
  left out, as is the generated \<open>_id\<close>.
\<close>

record event =
  ev_type :: event_type
  deviceId :: string
  userId :: "objectId option"
  timestamp :: date
  severity :: severity
  status :: status
  location :: "number list option"
  metadata :: metadata
  notifications :: notifications
  resolution :: "resolution option"
  escalation :: escalation
  acknowledgments :: "acknowledgment list"

definition no_metadata :: metadata where
  "no_metadata =
     \<lparr>emergencyType = None, command = None, commandParameters = [],
      alertThreshold = None, alertValue = None\<rparr>"

text \<open>
  A new document with the schema defaults: severity medium, status active, timestamp
  \<open>Date.now\<close>, escalation not escalated at level 1, no acknowledgments; the \<open>trim\<close>
  setter of \<open>deviceId\<close> is applied.
\<close>

definition new_Event :: "event_type \<Rightarrow> string \<Rightarrow> date \<Rightarrow> event" where
  "new_Event ty d now =
     \<lparr>ev_type = ty, deviceId = trim d, userId = None, timestamp = now,
      severity = medium, status = active, location = None, metadata = no_metadata,
      notifications = \<lparr>fcmSent = False, fcmTimestamp = None, fcmResponse = None, fcmError = None\<rparr>,
      resolution = None,
      escalation = \<lparr>escalated = False, escalatedAt = None, escalatedTo = None,
                    escalationReason = None, escalationLevel = 1\<rparr>,
      acknowledgments = []\<rparr>"

subsection \<open>Schema validation\<close>

text \<open>The validator of \<open>location.coordinates\<close>.\<close>

definition validCoordinates :: "number list \<Rightarrow> bool" where
  "validCoordinates coords =
     (length coords = 2 \<and> coords ! 0 \<ge> -180 \<and> coords ! 0 \<le> 180
      \<and> coords ! 1 \<ge> -90 \<and> coords ! 1 \<le> 90)"

definition emergencyTypes :: "string list" where
  "emergencyTypes = [''fall'', ''medical'', ''panic'', ''obstacle'', ''manual'', ''automatic'']"

text \<open>
  The constraints the schema declares on the modelled fields: \<open>deviceId\<close> required and at
  most 50 characters, the coordinates validator, the \<open>emergencyType\<close> enum, the resolution
  note of at most 500 characters, the escalation target an ObjectId when one is given, the
  escalation level between 1 and 5. The user ids that the handlers write come from the
  server's own token and are ObjectIds.
\<close>

definition validates :: "event \<Rightarrow> bool" where
  "validates e =
     (deviceId e \<noteq> [] \<and> length (deviceId e) \<le> 50
      \<and> (case location e of None \<Rightarrow> True | Some coords \<Rightarrow> validCoordinates coords)
      \<and> (case emergencyType (metadata e) of None \<Rightarrow> True | Some t \<Rightarrow> t \<in> set emergencyTypes)
      \<and> (case resolution e of None \<Rightarrow> True | Some r \<Rightarrow> length (resolutionNote r) \<le> 500)
      \<and> (case escalatedTo (escalation e) of None \<Rightarrow> True | Some t \<Rightarrow> isValidObjectId t)
      \<and> 1 \<le> escalationLevel (escalation e) \<and> escalationLevel (escalation e) \<le> 5)"

text \<open>\<open>save()\<close>: the document is written when it validates, otherwise the promise rejects.\<close>

definition save :: "event \<Rightarrow> error + event" where
  "save e = (if validates e then Inr e else Inl ValidationError)"

text \<open>\<open>Event.create\<close> on the collection, which keeps insertion order.\<close>

definition Event_create :: "event \<Rightarrow> event list \<Rightarrow> error + event list" where
  "Event_create e events = (if validates e then Inr (events @ [e]) else Inl ValidationError)"

subsection \<open>Instance methods\<close>

definition isAcknowledged :: "event \<Rightarrow> bool" where
  "isAcknowledged e = (length (acknowledgments e) > 0)"

text \<open>
  Each instance method changes the document in memory and returns \<open>this.save()\<close>: the
  stored document, or the validation error with nothing stored.
\<close>

definition acknowledge :: "objectId \<Rightarrow> string \<Rightarrow> date \<Rightarrow> event \<Rightarrow> error + event" where
  "acknowledge uid note_text now e =
     save
       (if \<not> isAcknowledged e then
          (let e1 = e\<lparr>acknowledgments := acknowledgments e @
                       [\<lparr>acknowledgedBy = uid, acknowledgedAt = now, ack_note = note_text\<rparr>]\<rparr>
           in if status e1 = active then e1\<lparr>status := acknowledged\<rparr> else e1)
        else e)"

definition resolve :: "objectId \<Rightarrow> string \<Rightarrow> string list \<Rightarrow> date \<Rightarrow> event \<Rightarrow> error + event" where
  "resolve uid note_text actions now e =
     save
       (e\<lparr>status := resolved,
          resolution := Some
            \<lparr>resolvedAt = now, resolvedBy = uid, resolutionNote = note_text,
             resolutionActions =
               map (\<lambda>a. \<lparr>action = a, action_timestamp = now, performedBy = uid\<rparr>) actions\<rparr>\<rparr>)"

text \<open>\<open>escalationLevel: Math.min(level, 5)\<close>\<close>

definition escalate :: "objectId option \<Rightarrow> string \<Rightarrow> int \<Rightarrow> date \<Rightarrow> event \<Rightarrow> error + event" where
  "escalate target reason level now e =
     save
       (e\<lparr>escalation :=
            \<lparr>escalated = True, escalatedAt = Some now, escalatedTo = target,
             escalationReason = Some reason, escalationLevel = min level 5\<rparr>\<rparr>)"

subsection \<open>Event.createSOSEvent\<close>

record gps =
  lat :: "number option"
  lon :: "number option"

text \<open>JavaScript truthiness of an optional number: absent and zero are falsy.\<close>

definition truthy :: "number option \<Rightarrow> bool" where
  "truthy v = (case v of None \<Rightarrow> False | Some x \<Rightarrow> x \<noteq> 0)"

text \<open>
  The caller's metadata object carries \<open>emergencyType\<close> (\<open>None\<close>: the key is absent); the
  spread \<open>...metadata\<close> after \<open>metadata.emergencyType || "manual"\<close> puts the caller's value
  back whenever the key is there.
\<close>

definition createSOSEvent_data :: "string \<Rightarrow> gps option \<Rightarrow> string option \<Rightarrow> date \<Rightarrow> event" where
  "createSOSEvent_data d loc etype now =
     (let eventData = (new_Event SOS d now)
            \<lparr>severity := critical,
             metadata := no_metadata\<lparr>emergencyType :=
               Some (case etype of None \<Rightarrow> ''manual'' | Some t \<Rightarrow> t)\<rparr>\<rparr>
      in case loc of
           None \<Rightarrow> eventData
         | Some g \<Rightarrow>
             if truthy (lat g) \<and> truthy (lon g)
             then (case (lon g, lat g) of
                     (Some lo, Some la) \<Rightarrow> eventData\<lparr>location := Some [lo, la]\<rparr>
                   | _ \<Rightarrow> eventData)
             else eventData)"

definition createSOSEvent ::
  "string \<Rightarrow> gps option \<Rightarrow> string option \<Rightarrow> date \<Rightarrow> event list \<Rightarrow> error + (event \<times> event list)" where
  "createSOSEvent d loc etype now events =
     (let e = createSOSEvent_data d loc etype now
      in case Event_create e events of
           Inl err \<Rightarrow> Inl err
         | Inr events' \<Rightarrow> Inr (e, events'))"

section \<open>controllers/sosController.js\<close>

text \<open>
  A user document as the controllers read it: the ids of the registered devices, the admin
  flag, the push token (\<open>None\<close>: null or absent), the account's active flag and the
  emergency contacts (name, phone).
\<close>

record user =
  user_devices :: "string list"
  isAdmin :: bool
  fcmToken :: "string option"
  isActive :: bool
  emergencyContacts :: "(string \<times> string) list"

text \<open>An HTTP response: status code, the \<open>success\<close> and \<open>message\<close> fields, and \<open>data\<close> when present.\<close>

record 'a response =
  statusCode :: nat
  success :: bool
  message :: string
  res_data :: "'a option"

definition respond :: "nat \<Rightarrow> bool \<Rightarrow> string \<Rightarrow> 'a option \<Rightarrow> 'a response" where
  "respond c ok msg d = \<lparr>statusCode = c, success = ok, message = msg, res_data = d\<rparr>"

text \<open>\<open>user.devices.some(device => device.deviceId === deviceId) || user.isAdmin\<close>\<close>

definition hasAccess :: "user \<Rightarrow> string \<Rightarrow> bool" where
  "hasAccess u d = (d \<in> set (user_devices u) \<or> isAdmin u)"

text \<open>
  The lifecycle handlers take the request, the result of \<open>User.findById\<close> and the result of
  \<open>Event.findById\<close> (the stored document), and return the response together with the stored
  document after the call.
\<close>

definition resolveSOS ::
  "string \<Rightarrow> string \<Rightarrow> string list \<Rightarrow> objectId \<Rightarrow> user option \<Rightarrow> date \<Rightarrow> event option
   \<Rightarrow> (date \<times> objectId) response \<times> event option" where
  "resolveSOS eventId note_text actions reqUserId usr now found =
     (if \<not> isValidObjectId eventId then (respond 400 False ''Invalid event ID'' None, found)
      else
        (case found of
           None \<Rightarrow> (respond 404 False ''SOS event not found'' None, found)
         | Some sosEvent \<Rightarrow>
             (if ev_type sosEvent \<noteq> SOS
              then (respond 400 False ''Event is not an SOS alert'' None, found)
              else
                (case usr of
                   None \<Rightarrow> (respond 404 False ''User not found'' None, found)
                 | Some u \<Rightarrow>
                     (if \<not> hasAccess u (deviceId sosEvent)
                      then (respond 403 False ''Access denied to this SOS event'' None, found)
                      else
                        (case resolve reqUserId (sanitizeText note_text)
                                (map sanitizeText actions) now sosEvent of
                           Inl err \<Rightarrow>
                             (respond 500 False ''Failed to resolve SOS event'' None, found)
                         | Inr e' \<Rightarrow>
                             (respond 200 True ''SOS event resolved successfully''
                                (Some (now, reqUserId)), Some e')))))))"

text \<open>
  \<open>level\<close> is the result of \<open>parseInt(level)\<close>: an integer, or \<open>None\<close> for \<open>NaN\<close>, which the
  schema cannot store, so that \<open>save()\<close> rejects.
\<close>

definition escalateSOS ::
  "string \<Rightarrow> objectId option \<Rightarrow> string \<Rightarrow> int option \<Rightarrow> user option \<Rightarrow> date \<Rightarrow> event option
   \<Rightarrow> (date \<times> objectId option \<times> int option) response \<times> event option" where
  "escalateSOS eventId target reason level usr now found =
     (if \<not> isValidObjectId eventId then (respond 400 False ''Invalid event ID'' None, found)
      else if (case target of None \<Rightarrow> False | Some t \<Rightarrow> t \<noteq> [] \<and> \<not> isValidObjectId t)
      then (respond 400 False ''Invalid escalatedTo user ID'' None, found)
      else
        (case found of
           None \<Rightarrow> (respond 404 False ''SOS event not found'' None, found)
         | Some sosEvent \<Rightarrow>
             (if ev_type sosEvent \<noteq> SOS
              then (respond 400 False ''Event is not an SOS alert'' None, found)
              else
                (case usr of
                   None \<Rightarrow> (respond 404 False ''User not found'' None, found)
                 | Some u \<Rightarrow>
                     (if \<not> hasAccess u (deviceId sosEvent)
                      then (respond 403 False ''Access denied to this SOS event'' None, found)
                      else
                        (case level of
                           None \<Rightarrow>
                             (respond 500 False ''Failed to escalate SOS event'' None, found)
                         | Some l \<Rightarrow>
                             (case escalate target (sanitizeText reason) l now sosEvent of
                                Inl err \<Rightarrow>
                                  (respond 500 False ''Failed to escalate SOS event'' None, found)
                              | Inr e' \<Rightarrow>
                                  (respond 200 True ''SOS event escalated successfully''
                                     (Some (now, target, level)), Some e'))))))))"

subsection \<open>receiveSOS\<close>

text \<open>\<open>User.findUsersWithFCMByDevice\<close>: active users of the device whose token exists and is not null.\<close>

definition findUsersWithFCMByDevice :: "user list \<Rightarrow> string \<Rightarrow> user list" where
  "findUsersWithFCMByDevice users d =
     filter (\<lambda>u. d \<in> set (user_devices u) \<and> fcmToken u \<noteq> None \<and> isActive u) users"

text \<open>\<open>users.map((user) => user.fcmToken).filter((token) => token)\<close>: the non-empty tokens.\<close>

definition fcmTokens_of :: "user list \<Rightarrow> string list" where
  "fcmTokens_of users =
     concat (map (\<lambda>u. case fcmToken u of None \<Rightarrow> [] | Some t \<Rightarrow> if t = [] then [] else [t]) users)"

text \<open>
  What the push service returns for a send: the success flag, the error text of a failed
  send, and the JSON text of the result. It never throws.
\<close>

record fcmResult =
  fcm_success :: bool
  fcm_error :: "string option"
  fcm_json :: string

record sos_body =
  body_deviceId :: string
  body_gps :: "gps option"
  body_emergencyType :: "string option"

record sos_data =
  data_deviceId :: string
  data_timestamp :: date
  notificationsSent :: "nat option"
  emergencyContactsAvailable :: "nat option"

text \<open>
  \<open>POST /api/sos\<close> behind the \<open>validateSOS\<close> middleware. \<open>send\<close> is the push service, applied
  to the token list. The result is the response and the event collection afterwards.
\<close>

definition receiveSOS ::
  "sos_body \<Rightarrow> user list \<Rightarrow> (string list \<Rightarrow> fcmResult) \<Rightarrow> date \<Rightarrow> event list
   \<Rightarrow> sos_data response \<times> event list" where
  "receiveSOS body users send now events =
     (case createSOSEvent (sanitizeText (body_deviceId body)) (body_gps body)
             (Some (case body_emergencyType body of None \<Rightarrow> ''manual'' | Some t \<Rightarrow> t))
             now events of
        Inl err \<Rightarrow> (respond 400 False ''Invalid SOS data'' None, events)
      | Inr (sosEvent, events1) \<Rightarrow>
          (let found = findUsersWithFCMByDevice users (body_deviceId body)
           in if length found = 0
              then (respond 200 True ''SOS alert received but no users to notify''
                      (Some \<lparr>data_deviceId = body_deviceId body,
                             data_timestamp = timestamp sosEvent,
                             notificationsSent = None,
                             emergencyContactsAvailable = None\<rparr>), events1)
              else
                (let fcmTokens = fcmTokens_of found;
                     saved =
                       (if length fcmTokens > 0
                        then (let r = send fcmTokens;
                                  n1 = (notifications sosEvent)
                                         \<lparr>fcmSent := fcm_success r, fcmTimestamp := Some now\<rparr>;
                                  n2 = (if fcm_success r
                                        then n1\<lparr>fcmResponse := Some (fcm_json r)\<rparr>
                                        else n1\<lparr>fcmError := fcm_error r\<rparr>)
                              in save (sosEvent\<lparr>notifications := n2\<rparr>))
                        else Inr sosEvent);
                     contacts = concat (map emergencyContacts found)
                 in case saved of
                      Inl err \<Rightarrow> (respond 400 False ''Invalid SOS data'' None, events1)
                    | Inr e' \<Rightarrow>
                        (respond 201 True ''SOS alert processed successfully''
                           (Some \<lparr>data_deviceId = body_deviceId body,
                                  data_timestamp = timestamp e',
                                  notificationsSent = Some (length fcmTokens),
                                  emergencyContactsAvailable = Some (length contacts)\<rparr>),
                         events1[length events1 - 1 := e']))))"

section \<open>models/Telemetry.js\<close>

text \<open>
  The sensor readings the alert rules read. \<open>accelerometer\<close> is \<open>None\<close> when the object or
  one of its components is missing: the magnitude is then not a number and no rule fires.
\<close>

record sensors =
  ultrasonicLeft :: "number option"
  ultrasonicRight :: "number option"
  battery_level :: "number option"
  accelerometer :: "(number \<times> number \<times> number) option"

record telemetry =
  tm_deviceId :: string
  tm_timestamp :: date
  tm_sensors :: sensors
  tm_gps :: gps

text \<open>A telemetry message as a device sends it: the timestamp is optional.\<close>

record telemetry_body =
  tb_deviceId :: string
  tb_timestamp :: "date option"
  tb_sensors :: sensors
  tb_gps :: gps

text \<open>A \<open>min\<close>/\<open>max\<close> pair of the schema on an optional number.\<close>

definition inRange :: "number \<Rightarrow> number \<Rightarrow> number option \<Rightarrow> bool" where
  "inRange lo hi v = (case v of None \<Rightarrow> True | Some x \<Rightarrow> lo \<le> x \<and> x \<le> hi)"

definition validates_telemetry :: "telemetry \<Rightarrow> bool" where
  "validates_telemetry t =
     (tm_deviceId t \<noteq> [] \<and> length (tm_deviceId t) \<le> 50
      \<and> inRange 0 1000 (ultrasonicLeft (tm_sensors t))
      \<and> inRange 0 1000 (ultrasonicRight (tm_sensors t))
      \<and> inRange 0 100 (battery_level (tm_sensors t))
      \<and> inRange (-90) 90 (lat (tm_gps t))
      \<and> inRange (-180) 180 (lon (tm_gps t)))"

text \<open>\<open>new Telemetry({...})\<close>: the \<open>trim\<close> setter of \<open>deviceId\<close>, the timestamp or the clock.\<close>

definition new_Telemetry :: "string \<Rightarrow> telemetry_body \<Rightarrow> date \<Rightarrow> telemetry" where
  "new_Telemetry d body now =
     \<lparr>tm_deviceId = trim d,
      tm_timestamp = (case tb_timestamp body of None \<Rightarrow> now | Some t \<Rightarrow> t),
      tm_sensors = tb_sensors body, tm_gps = tb_gps body\<rparr>"

text \<open>The two collections the ingestion paths write.\<close>

record store =
  st_telemetry :: "telemetry list"
  st_events :: "event list"

section \<open>Alert rules\<close>

text \<open>An entry of the \<open>alerts\<close> array, before the event is created.\<close>

record alertData =
  alert_type :: event_type
  alert_severity :: severity
  alert_threshold :: "number option"
  alert_value :: "number option"

text \<open>\<open>Event.create({...alertData, deviceId, timestamp})\<close> for one entry.\<close>

definition alertEvent :: "alertData \<Rightarrow> string \<Rightarrow> date \<Rightarrow> event" where
  "alertEvent a d ts =
     (new_Event (alert_type a) d ts)
       \<lparr>severity := alert_severity a,
        metadata := no_metadata\<lparr>alertThreshold := alert_threshold a,
                                 alertValue := alert_value a\<rparr>\<rparr>"

text \<open>
  The loop \<open>for (const alert of alerts) await Event.create(...)\<close> inside \<open>try\<close>: a creation
  that throws ends the loop, and the error is logged only.
\<close>

fun createAlerts :: "alertData list \<Rightarrow> string \<Rightarrow> date \<Rightarrow> event list \<Rightarrow> event list" where
  "createAlerts [] d ts events = events"
| "createAlerts (a # as) d ts events =
     (case Event_create (alertEvent a d ts) events of
        Inl err \<Rightarrow> events
      | Inr events' \<Rightarrow> createAlerts as d ts events')"

text \<open>\<open>x || 1000\<close> on an optional number.\<close>

definition orDefault :: "number option \<Rightarrow> number \<Rightarrow> number" where
  "orDefault v dflt = (case v of None \<Rightarrow> dflt | Some x \<Rightarrow> if x = 0 then dflt else x)"

text \<open>\<open>Math.sqrt(x * x + y * y + z * z)\<close>\<close>

definition magnitude :: "number \<times> number \<times> number \<Rightarrow> number" where
  "magnitude a = (case a of (x, y, z) \<Rightarrow> sqrt (x * x + y * y + z * z))"

subsection \<open>controllers/telemetryController.js: checkForAlerts\<close>

text \<open>\<open>telemetry.sensors?.battery?.level && telemetry.sensors.battery.level < 20\<close>\<close>

definition lowBatteryRule :: "sensors \<Rightarrow> alertData list" where
  "lowBatteryRule s =
     (case battery_level s of
        None \<Rightarrow> []
      | Some level \<Rightarrow>
          if level \<noteq> 0 \<and> level < 20
          then [\<lparr>alert_type = LOW_BATTERY,
                 alert_severity = (if level < 10 then high else medium),
                 alert_threshold = Some 20, alert_value = Some level\<rparr>]
          else [])"

definition obstacleRule :: "sensors \<Rightarrow> alertData list" where
  "obstacleRule s =
     (let minDistance = min (orDefault (ultrasonicLeft s) 1000) (orDefault (ultrasonicRight s) 1000)
      in if minDistance < 30
         then [\<lparr>alert_type = OBSTACLE_DETECTED,
                alert_severity = (if minDistance < 15 then high else medium),
                alert_threshold = Some 30, alert_value = Some minDistance\<rparr>]
         else [])"

definition fallRule :: "sensors \<Rightarrow> alertData list" where
  "fallRule s =
     (case accelerometer s of
        None \<Rightarrow> []
      | Some a \<Rightarrow>
          if magnitude a > 20
          then [\<lparr>alert_type = FALL_DETECTED, alert_severity = high,
                 alert_threshold = Some 20, alert_value = Some (magnitude a)\<rparr>]
          else [])"

text \<open>
  \<open>!telemetry.gps?.lat || !telemetry.gps?.lon\<close>, then the query for an earlier record of the
  device whose \<open>gps.lat\<close> and \<open>gps.lon\<close> exist.
\<close>

definition gpsLostRule :: "string \<Rightarrow> telemetry \<Rightarrow> telemetry list \<Rightarrow> alertData list" where
  "gpsLostRule d t telemetries =
     (if truthy (lat (tm_gps t)) \<and> truthy (lon (tm_gps t)) then []
      else if list_ex (\<lambda>p. tm_deviceId p = d \<and> tm_timestamp p < tm_timestamp t
                           \<and> lat (tm_gps p) \<noteq> None \<and> lon (tm_gps p) \<noteq> None) telemetries
      then [\<lparr>alert_type = GPS_LOST, alert_severity = medium,
             alert_threshold = None, alert_value = None\<rparr>]
      else [])"

definition checkForAlerts :: "string \<Rightarrow> telemetry \<Rightarrow> store \<Rightarrow> store" where
  "checkForAlerts d t st =
     (let alerts = lowBatteryRule (tm_sensors t) @ obstacleRule (tm_sensors t)
                   @ fallRule (tm_sensors t) @ gpsLostRule d t (st_telemetry st)
      in st\<lparr>st_events := createAlerts alerts d (tm_timestamp t) (st_events st)\<rparr>)"

record telemetry_data =
  td_deviceId :: string
  td_timestamp :: date

text \<open>
  \<open>POST /api/telemetry\<close> behind the \<open>validateTelemetry\<close> middleware: the record is saved,
  then the alert rules run on it. The update of the device's last-seen time is not modelled.
\<close>

definition receiveTelemetry :: "telemetry_body \<Rightarrow> date \<Rightarrow> store \<Rightarrow> telemetry_data response \<times> store" where
  "receiveTelemetry body now st =
     (let t = new_Telemetry (sanitizeText (tb_deviceId body)) body now
      in if \<not> validates_telemetry t
         then (respond 400 False ''Invalid telemetry data'' None, st)
         else
           (let st1 = st\<lparr>st_telemetry := st_telemetry st @ [t]\<rparr>;
                st2 = checkForAlerts (tb_deviceId body) t st1
            in (respond 201 True ''Telemetry data received successfully''
                  (Some \<lparr>td_deviceId = tm_deviceId t, td_timestamp = tm_timestamp t\<rparr>), st2)))"

subsection \<open>mqtt/mqttClient.js: the telemetry handler\<close>

text \<open>
  \<open>handleLowBatteryAlert\<close>: a LOW_BATTERY event of the device from the last hour suppresses
  the alert. The push notification that follows a creation leaves the collection as it is.
\<close>

definition handleLowBatteryAlert :: "string \<Rightarrow> number \<Rightarrow> date \<Rightarrow> event list \<Rightarrow> event list" where
  "handleLowBatteryAlert d batteryLevel now events =
     (if list_ex (\<lambda>e. ev_type e = LOW_BATTERY \<and> deviceId e = d
                       \<and> timestamp e \<ge> now - 60 * 60 * 1000) events
      then events
      else
        (case Event_create
                (alertEvent
                   \<lparr>alert_type = LOW_BATTERY,
                    alert_severity = (if batteryLevel < 10 then high else medium),
                    alert_threshold = Some 20, alert_value = Some batteryLevel\<rparr> d now)
                events of
           Inl err \<Rightarrow> events
         | Inr events' \<Rightarrow> events'))"

text \<open>\<open>sensors?.ultrasonicLeft < 30\<close>: false when the reading is absent.\<close>

definition below :: "number option \<Rightarrow> number \<Rightarrow> bool" where
  "below v limit = (case v of None \<Rightarrow> False | Some x \<Rightarrow> x < limit)"

definition checkCriticalSensorReadings :: "string \<Rightarrow> sensors \<Rightarrow> date \<Rightarrow> event list \<Rightarrow> event list" where
  "checkCriticalSensorReadings d s now events =
     (let obstacle =
            (if below (ultrasonicLeft s) 30 \<or> below (ultrasonicRight s) 30
             then [\<lparr>alert_type = OBSTACLE_DETECTED, alert_severity = medium,
                    alert_threshold = Some 30,
                    alert_value = Some (min (orDefault (ultrasonicLeft s) 1000)
                                            (orDefault (ultrasonicRight s) 1000))\<rparr>]
             else []);
          fall =
            (case accelerometer s of
               None \<Rightarrow> []
             | Some a \<Rightarrow>
                 if magnitude a > 20
                 then [\<lparr>alert_type = FALL_DETECTED, alert_severity = high,
                        alert_threshold = Some 20, alert_value = Some (magnitude a)\<rparr>]
                 else [])
      in createAlerts (obstacle @ fall) d now events)"

text \<open>
  \<open>handleTelemetryMessage\<close> for a message on \<open>.../{deviceId}/telemetry\<close>: a record that does
  not validate throws, and the handler ends there.
\<close>

definition handleTelemetryMessage :: "string \<Rightarrow> telemetry_body \<Rightarrow> date \<Rightarrow> store \<Rightarrow> store" where
  "handleTelemetryMessage d body now st =
     (let t = new_Telemetry d body now
      in if \<not> validates_telemetry t then st
         else
           (let events1 =
                  (if below (battery_level (tb_sensors body)) 20
                   then (case battery_level (tb_sensors body) of
                           None \<Rightarrow> st_events st
                         | Some level \<Rightarrow> handleLowBatteryAlert d level now (st_events st))
                   else st_events st);
                events2 = checkCriticalSensorReadings d (tb_sensors body) now events1
            in \<lparr>st_telemetry = st_telemetry st @ [t], st_events = events2\<rparr>))"

section \<open>Command dispatch\<close>

text \<open>
  A parameters object is the list of its entries in \<open>Object.entries\<close> order. The broker is
  a parameter: whether the client is connected, what a publish to a topic answers (\<open>None\<close>:
  acknowledged, otherwise the error text), and the message id generated for a device.
\<close>

type_synonym parameters = "(string \<times> json) list"





subsection \<open>The schema's \<open>commandParameters: { type: Map, of: String }\<close>\<close>




text \<open>The COMMAND_SENT entry a dispatch records, with the parameters as stored.\<close>

definition commandSentEvent :: "string \<Rightarrow> objectId option \<Rightarrow> string \<Rightarrow> parameters \<Rightarrow> date \<Rightarrow> event" where
  "commandSentEvent d uid cmd stored now =
     (new_Event COMMAND_SENT d now)
       \<lparr>userId := uid, severity := low,
        metadata := no_metadata\<lparr>command := Some cmd, commandParameters := stored\<rparr>\<rparr>"




subsection \<open>controllers/commandController.js: sendCommand\<close>




subsection \<open>controllers/commandController.js: sendBulkCommands\<close>




text \<open>Decimal text of a count, for the response message.\<close>

fun showNat :: "nat \<Rightarrow> string" where
  "showNat n =
     (if n < 10 then [char_of (48 + n)]
      else showNat (n div 10) @ [char_of (48 + n mod 10)])"

text \<open>
  The number printer of the concrete examples below: the decimal digits of a non-negative
  whole number, as \<open>Number.prototype.toString\<close> prints it.
\<close>

definition wholeNumberText :: "number \<Rightarrow> string" where
  "wholeNumberText n = showNat (nat \<lfloor>n\<rfloor>)"


section \<open>Facts about the schema and the concrete inputs used below\<close>

lemma validates_unrelated [simp]:
  "validates (e\<lparr>acknowledgments := a\<rparr>) = validates e"
  "validates (e\<lparr>status := s\<rparr>) = validates e"
  "validates (e\<lparr>notifications := n\<rparr>) = validates e"
  by (simp_all add: validates_def)

lemma validates_new_Event:
  "validates (new_Event ty d now) = (trim d \<noteq> [] \<and> length (trim d) \<le> 50)"
  by (simp add: validates_def new_Event_def no_metadata_def)

lemma validates_set_resolution:
  "validates e \<Longrightarrow> length (resolutionNote r) \<le> 500 \<Longrightarrow> validates (e\<lparr>resolution := Some r\<rparr>)"
  by (simp add: validates_def)

lemma validates_alertEvent:
  "validates (alertEvent a d ts) = (trim d \<noteq> [] \<and> length (trim d) \<le> 50)"
  by (simp add: validates_def alertEvent_def new_Event_def no_metadata_def)

lemma alertEvent_fields [simp]:
  "ev_type (alertEvent a d ts) = alert_type a"
  "severity (alertEvent a d ts) = alert_severity a"
  "deviceId (alertEvent a d ts) = trim d"
  "timestamp (alertEvent a d ts) = ts"
  "status (alertEvent a d ts) = active"
  "alertValue (metadata (alertEvent a d ts)) = alert_value a"
  "alertThreshold (metadata (alertEvent a d ts)) = alert_threshold a"
  by (simp_all add: alertEvent_def new_Event_def no_metadata_def)

lemma createSOSEvent_data_fields:
  "deviceId (createSOSEvent_data d loc etype now) = trim d"
  "status (createSOSEvent_data d loc etype now) = active"
  "severity (createSOSEvent_data d loc etype now) = critical"
  "ev_type (createSOSEvent_data d loc etype now) = SOS"
  "timestamp (createSOSEvent_data d loc etype now) = now"
  "resolution (createSOSEvent_data d loc etype now) = None"
  "escalationLevel (escalation (createSOSEvent_data d loc etype now)) = 1"
  "escalatedTo (escalation (createSOSEvent_data d loc etype now)) = None"
  "emergencyType (metadata (createSOSEvent_data d loc etype now)) =
     Some (case etype of None \<Rightarrow> ''manual'' | Some t \<Rightarrow> t)"
  by (simp_all add: createSOSEvent_data_def new_Event_def no_metadata_def Let_def
        split: option.splits)

lemma createSOSEvent_data_location:
  "location (createSOSEvent_data d loc etype now) =
     (case loc of
        None \<Rightarrow> None
      | Some g \<Rightarrow>
          (case (lat g, lon g) of
             (Some la, Some lo) \<Rightarrow> if la \<noteq> 0 \<and> lo \<noteq> 0 then Some [lo, la] else None
           | _ \<Rightarrow> None))"
  by (simp add: createSOSEvent_data_def new_Event_def Let_def truthy_def split: option.splits)

lemma manual_is_emergencyType [simp]: "''manual'' \<in> set emergencyTypes"
  by (simp add: emergencyTypes_def)

lemma trim_stick [simp]: "trim ''stick-001'' = ''stick-001''"
  by (simp add: trim_def isWhiteSpace_def)

lemma sanitizeText_stick [simp]: "sanitizeText ''stick-001'' = ''stick-001''"
  by (simp add: sanitizeText_def)

lemma isValidObjectId_sample [simp]: "isValidObjectId ''64b7f0c2a1d3e4f5a6b7c8d9''"
  by (simp add: isValidObjectId_def isHexDigit_def)

lemma sanitizeText_samples [simp]:
  "sanitizeText ''found'' = ''found''"
  "sanitizeText ''false alarm'' = ''false alarm''"
  "sanitizeText ''called'' = ''called''"
  "sanitizeText ''urgent'' = ''urgent''"
  by (simp_all add: sanitizeText_def trim_def isWhiteSpace_def)








lemma commandSentEvent_fields [simp]:
  "commandParameters (metadata (commandSentEvent d uid cmd stored now)) = stored"
  "ev_type (commandSentEvent d uid cmd stored now) = COMMAND_SENT"
  "userId (commandSentEvent d uid cmd stored now) = uid"
  by (simp_all add: commandSentEvent_def new_Event_def no_metadata_def)










lemma char_of_51: "char_of (51::nat) = CHR ''3''"
  by code_simp

lemma wholeNumberText_3 [simp]: "wholeNumberText 3 = ''3''"
  by (simp add: wholeNumberText_def char_of_51)

section \<open>The incident lifecycle\<close>

subsection \<open>Acknowledging twice (claim C3)\<close>

text \<open>
  Claim C3 says that acknowledging an unresolved incident twice appends two entries. It does
  not: \<open>acknowledge\<close> only appends when the incident has no acknowledgment yet. On a new SOS
  incident (status active) two calls by two users leave exactly one entry, not two.
\<close>

theorem acknowledge_twice_counterexample:
  "status (new_Event SOS ''stick-001'' 0) = active \<and>
   (case acknowledge ''64b7f0c2a1d3e4f5a6b7c801'' ''seen'' 1000 (new_Event SOS ''stick-001'' 0) of
      Inl err \<Rightarrow> False
    | Inr e1 \<Rightarrow>
        (case acknowledge ''64b7f0c2a1d3e4f5a6b7c802'' ''again'' 2000 e1 of
           Inl err \<Rightarrow> False
         | Inr e2 \<Rightarrow> length (acknowledgments e2) = 1 \<and> length (acknowledgments e2) \<noteq> 2))"
  by (simp add: acknowledge_def save_def isAcknowledged_def Let_def validates_def
        new_Event_def no_metadata_def)

text \<open>
  Claim C3 as amended: for every stored incident without acknowledgments, the first
  \<open>acknowledge\<close> call appends exactly one entry (acknowledger, time, note) and moves the
  status from active to acknowledged (any other status is kept); a second call appends
  nothing and leaves the incident, its list and its status as the first call stored them.
\<close>

theorem acknowledge_twice:
  assumes "validates e" and "acknowledgments e = []"
  shows "\<exists>e1. acknowledge u1 n1 t1 e = Inr e1
           \<and> acknowledgments e1 = [\<lparr>acknowledgedBy = u1, acknowledgedAt = t1, ack_note = n1\<rparr>]
           \<and> status e1 = (if status e = active then acknowledged else status e)
           \<and> acknowledge u2 n2 t2 e1 = Inr e1"
  using assms by (simp add: acknowledge_def save_def isAcknowledged_def Let_def)

text \<open>Claim C3 as amended, on a new SOS incident of device stick-001.\<close>

theorem acknowledge_twice_witness:
  "validates (new_Event SOS ''stick-001'' 0) \<and> acknowledgments (new_Event SOS ''stick-001'' 0) = []
   \<and> (\<exists>e1. acknowledge ''64b7f0c2a1d3e4f5a6b7c801'' ''seen'' 1000 (new_Event SOS ''stick-001'' 0) = Inr e1
           \<and> acknowledgments e1 = [\<lparr>acknowledgedBy = ''64b7f0c2a1d3e4f5a6b7c801'', acknowledgedAt = 1000, ack_note = ''seen''\<rparr>]
           \<and> status e1 = acknowledged
           \<and> acknowledge ''64b7f0c2a1d3e4f5a6b7c802'' ''again'' 2000 e1 = Inr e1)"
proof -
  have v: "validates (new_Event SOS ''stick-001'' 0)"
    by (simp add: validates_new_Event)
  have a: "acknowledgments (new_Event SOS ''stick-001'' 0) = []"
    by (simp add: new_Event_def)
  have s: "status (new_Event SOS ''stick-001'' 0) = active"
    by (simp add: new_Event_def)
  from acknowledge_twice [OF v a, of "''64b7f0c2a1d3e4f5a6b7c801''" "''seen''" 1000 "''64b7f0c2a1d3e4f5a6b7c802''" "''again''" 2000] s v a
  show ?thesis by simp
qed

subsection \<open>Resolving twice (claim C2)\<close>

text \<open>
  Claim C2 says that a second resolve call on a resolved incident fails with a conflict and
  leaves the first resolution record unchanged. Neither \<open>resolve\<close> nor \<open>resolveSOS\<close> looks
  at the status: on a new SOS incident of device stick-001, resolved by its owner and then
  again by an administrator, the second request answers 200 and the stored resolution
  record is the second call's, different from the first.
\<close>

theorem resolveSOS_second_call_counterexample:
  "(case resolveSOS ''64b7f0c2a1d3e4f5a6b7c8d9'' ''found'' [''called''] ''64b7f0c2a1d3e4f5a6b7c801''
          (Some \<lparr>user_devices = [''stick-001''], isAdmin = False, fcmToken = None,
                  isActive = True, emergencyContacts = []\<rparr>)
          1000 (Some (new_Event SOS ''stick-001'' 0)) of
      (r1, stored1) \<Rightarrow>
        statusCode r1 = 200 \<and>
        (case stored1 of
           None \<Rightarrow> False
         | Some e1 \<Rightarrow>
             status e1 = resolved \<and>
             (case resolveSOS ''64b7f0c2a1d3e4f5a6b7c8d9'' ''false alarm'' [] ''64b7f0c2a1d3e4f5a6b7c802''
                     (Some \<lparr>user_devices = [], isAdmin = True, fcmToken = None,
                             isActive = True, emergencyContacts = []\<rparr>)
                     2000 stored1 of
                (r2, stored2) \<Rightarrow>
                  statusCode r2 = 200 \<and> success r2 \<and>
                  (case stored2 of
                     None \<Rightarrow> False
                   | Some e2 \<Rightarrow>
                       resolution e2 \<noteq> resolution e1 \<and>
                       resolution e2 = Some
                         \<lparr>resolvedAt = 2000, resolvedBy = ''64b7f0c2a1d3e4f5a6b7c802'',
                          resolutionNote = ''false alarm'', resolutionActions = []\<rparr>))))"
  by (simp add: resolveSOS_def resolve_def save_def hasAccess_def respond_def
        validates_def new_Event_def no_metadata_def)

text \<open>
  Claim C2 as amended: \<open>resolve\<close> does not depend on the current status. On every stored
  incident, a resolve call with a note of at most 500 characters succeeds and sets the status
  to resolved, and a second such call succeeds as well: the status stays resolved and the
  resolution record is replaced by the second call's resolver, note, ordered actions and time.
\<close>

theorem resolve_twice_overwrites:
  assumes "validates e" and "length n1 \<le> 500" and "length n2 \<le> 500"
  shows "\<exists>e1 e2. resolve u1 n1 a1 t1 e = Inr e1 \<and> status e1 = resolved
           \<and> resolve u2 n2 a2 t2 e1 = Inr e2 \<and> status e2 = resolved
           \<and> resolution e2 = Some
                 \<lparr>resolvedAt = t2, resolvedBy = u2, resolutionNote = n2,
                  resolutionActions =
                    map (\<lambda>a. \<lparr>action = a, action_timestamp = t2, performedBy = u2\<rparr>) a2\<rparr>"
  using assms by (simp add: resolve_def save_def validates_set_resolution)

text \<open>Claim C2 as amended, on a new SOS incident resolved by two users in turn.\<close>

theorem resolve_twice_overwrites_witness:
  "validates (new_Event SOS ''stick-001'' 0) \<and> length ''found'' \<le> 500 \<and> length ''false alarm'' \<le> 500
   \<and> (\<exists>e1 e2. resolve ''64b7f0c2a1d3e4f5a6b7c801'' ''found'' [''called''] 1000 (new_Event SOS ''stick-001'' 0) = Inr e1
          \<and> status e1 = resolved
          \<and> resolve ''64b7f0c2a1d3e4f5a6b7c802'' ''false alarm'' [] 2000 e1 = Inr e2 \<and> status e2 = resolved
          \<and> resolution e2 = Some
                \<lparr>resolvedAt = 2000, resolvedBy = ''64b7f0c2a1d3e4f5a6b7c802'', resolutionNote = ''false alarm'',
                 resolutionActions = []\<rparr>)"
proof -
  have v: "validates (new_Event SOS ''stick-001'' 0)"
    by (simp add: validates_new_Event)
  have l1: "length ''found'' \<le> 500" by simp
  have l2: "length ''false alarm'' \<le> 500" by simp
  from resolve_twice_overwrites [OF v l1 l2, of "''64b7f0c2a1d3e4f5a6b7c801''" "[''called'']" 1000 "''64b7f0c2a1d3e4f5a6b7c802''" "[]" 2000] v
  show ?thesis by simp
qed

subsection \<open>Escalation levels (claim C7)\<close>

text \<open>
  Claim C7 says that the supplied level is clamped into 1..5 from both sides and that the
  stored record is escalated afterwards. \<open>escalate\<close> takes \<open>Math.min(level, 5)\<close> only: with
  level 0 on a new SOS incident the document carries level 0, the schema's minimum of 1
  rejects the save, the request answers 500 and the stored incident is still not escalated.
\<close>

theorem escalate_level_below_one_rejected:
  "escalate None ''urgent'' 0 1000 (new_Event SOS ''stick-001'' 0) = Inl ValidationError
   \<and> escalateSOS ''64b7f0c2a1d3e4f5a6b7c8d9'' None ''urgent'' (Some 0)
         (Some \<lparr>user_devices = [''stick-001''], isAdmin = False, fcmToken = None,
                 isActive = True, emergencyContacts = []\<rparr>)
         1000 (Some (new_Event SOS ''stick-001'' 0))
       = (respond 500 False ''Failed to escalate SOS event'' None,
          Some (new_Event SOS ''stick-001'' 0))
   \<and> escalated (escalation (new_Event SOS ''stick-001'' 0)) = False"
  by (simp add: escalateSOS_def escalate_def save_def hasAccess_def
        validates_def new_Event_def no_metadata_def)

text \<open>
  For levels of at least 1 (and a target that is absent or an ObjectId) the claim holds:
  whatever the status, the call stores a record with \<open>escalated = True\<close> and the level cut
  at 5, replacing every field of the prior record.
\<close>

lemma escalate_level_at_least_one:
  assumes "validates e" and "1 \<le> level"
    and "target = None \<or> (\<exists>t. target = Some t \<and> isValidObjectId t)"
  shows "escalate target reason level now e =
           Inr (e\<lparr>escalation :=
                   \<lparr>escalated = True, escalatedAt = Some now, escalatedTo = target,
                    escalationReason = Some reason, escalationLevel = min level 5\<rparr>\<rparr>)
         \<and> 1 \<le> min level 5 \<and> min level 5 \<le> 5"
  using assms by (auto simp add: escalate_def save_def validates_def)

section \<open>SOS intake\<close>

subsection \<open>Coordinates on the equator or the prime meridian (claim C10)\<close>



subsection \<open>An SOS for a device nobody is registered for (claim C4)\<close>

text \<open>
  Claim C4 says that \<open>POST /sos\<close> for a device without notification tokens answers 201 with
  \<open>notificationsSent: 0\<close>. With no user registered for stick-001, \<open>receiveSOS\<close> creates the
  incident (status active) and answers 200 with the message for "no users to notify"; the
  body has no \<open>notificationsSent\<close> field. This holds whatever the push service would do.
\<close>

theorem receiveSOS_without_users_responds_200:
  "fst (receiveSOS
          \<lparr>body_deviceId = ''stick-001'',
           body_gps = Some \<lparr>lat = Some (407128 / 10000), lon = Some (- 740060 / 10000)\<rparr>,
           body_emergencyType = None\<rparr>
          [] send 1000 [])
     = respond 200 True ''SOS alert received but no users to notify''
         (Some \<lparr>data_deviceId = ''stick-001'', data_timestamp = 1000,
                notificationsSent = None, emergencyContactsAvailable = None\<rparr>)
   \<and> map status (snd (receiveSOS
          \<lparr>body_deviceId = ''stick-001'',
           body_gps = Some \<lparr>lat = Some (407128 / 10000), lon = Some (- 740060 / 10000)\<rparr>,
           body_emergencyType = None\<rparr>
          [] send 1000 [])) = [active]"
  by (simp add: receiveSOS_def createSOSEvent_def Event_create_def Let_def
        findUsersWithFCMByDevice_def createSOSEvent_data_fields
        createSOSEvent_data_location validates_def validCoordinates_def)

text \<open>
  When a user is registered for the device but the token is the empty string, the same
  request answers 201 with \<open>notificationsSent: 0\<close>, as the claim says.
\<close>

lemma receiveSOS_empty_token_responds_201:
  "fst (receiveSOS
          \<lparr>body_deviceId = ''stick-001'',
           body_gps = Some \<lparr>lat = Some (407128 / 10000), lon = Some (- 740060 / 10000)\<rparr>,
           body_emergencyType = None\<rparr>
          [\<lparr>user_devices = [''stick-001''], isAdmin = False, fcmToken = Some [],
            isActive = True, emergencyContacts = []\<rparr>] send 1000 [])
     = respond 201 True ''SOS alert processed successfully''
         (Some \<lparr>data_deviceId = ''stick-001'', data_timestamp = 1000,
                notificationsSent = Some 0, emergencyContactsAvailable = Some 0\<rparr>)"
  by (simp add: receiveSOS_def createSOSEvent_def Event_create_def Let_def
        findUsersWithFCMByDevice_def fcmTokens_of_def createSOSEvent_data_fields
        createSOSEvent_data_location validates_def validCoordinates_def)

section \<open>Alert rules on the two ingestion paths\<close>

subsection \<open>Low battery without a cooldown on the HTTP path (claim C1)\<close>

text \<open>
  Claim C1 says that one LOW_BATTERY incident is created per device and cooldown window.
  \<open>checkForAlerts\<close>, the rule engine of \<open>POST /telemetry\<close>, has no cooldown: two accepted
  messages of stick-001 with battery level 8, one second apart, create two LOW_BATTERY
  incidents.
\<close>

theorem receiveTelemetry_low_battery_twice:
  "map (\<lambda>e. (ev_type e, deviceId e, severity e, timestamp e))
     (st_events (snd (receiveTelemetry
        \<lparr>tb_deviceId = ''stick-001'', tb_timestamp = None,
         tb_sensors = \<lparr>ultrasonicLeft = None, ultrasonicRight = None,
                       battery_level = Some 8, accelerometer = None\<rparr>,
         tb_gps = \<lparr>lat = None, lon = None\<rparr>\<rparr> 2000
        (snd (receiveTelemetry
           \<lparr>tb_deviceId = ''stick-001'', tb_timestamp = None,
            tb_sensors = \<lparr>ultrasonicLeft = None, ultrasonicRight = None,
                          battery_level = Some 8, accelerometer = None\<rparr>,
            tb_gps = \<lparr>lat = None, lon = None\<rparr>\<rparr> 1000
           \<lparr>st_telemetry = [], st_events = []\<rparr>)))))
   = [(LOW_BATTERY, ''stick-001'', high, 1000), (LOW_BATTERY, ''stick-001'', high, 2000)]"
  by (simp add: receiveTelemetry_def new_Telemetry_def validates_telemetry_def inRange_def
        checkForAlerts_def lowBatteryRule_def obstacleRule_def fallRule_def gpsLostRule_def
        orDefault_def truthy_def Event_create_def validates_alertEvent Let_def)

text \<open>
  In general the HTTP path never suppresses: whatever the collection holds, an accepted
  record of a well-formed device with a non-zero level below 20 adds one LOW_BATTERY
  incident.
\<close>

lemma createAlerts_valid:
  "trim d \<noteq> [] \<Longrightarrow> length (trim d) \<le> 50 \<Longrightarrow>
   createAlerts alerts d ts events = events @ map (\<lambda>a. alertEvent a d ts) alerts"
  by (induction alerts arbitrary: events) (simp_all add: Event_create_def validates_alertEvent)

lemma other_rules_no_low_battery:
  "filter (\<lambda>a. alert_type a = LOW_BATTERY) (obstacleRule s) = []"
  "filter (\<lambda>a. alert_type a = LOW_BATTERY) (fallRule s) = []"
  "filter (\<lambda>a. alert_type a = LOW_BATTERY) (gpsLostRule d t ts) = []"
  by (simp_all add: obstacleRule_def fallRule_def gpsLostRule_def Let_def split: option.splits)

lemma filter_alertEvent:
  "filter (\<lambda>e. ev_type e = LOW_BATTERY) (map (\<lambda>a. alertEvent a d ts) alerts)
     = map (\<lambda>a. alertEvent a d ts) (filter (\<lambda>a. alert_type a = LOW_BATTERY) alerts)"
  by (induction alerts) simp_all

lemma checkForAlerts_never_suppresses:
  assumes "trim d \<noteq> []" and "length (trim d) \<le> 50"
    and "battery_level (tm_sensors t) = Some level" and "level \<noteq> 0" and "level < 20"
  shows "length (filter (\<lambda>e. ev_type e = LOW_BATTERY) (st_events (checkForAlerts d t st)))
           = Suc (length (filter (\<lambda>e. ev_type e = LOW_BATTERY) (st_events st)))"
  using assms
  by (simp add: checkForAlerts_def Let_def createAlerts_valid filter_alertEvent
        other_rules_no_low_battery lowBatteryRule_def)

text \<open>
  The MQTT path has the cooldown: \<open>handleLowBatteryAlert\<close> leaves the collection as it is
  when a LOW_BATTERY incident of the device is dated within the last hour, and creates one
  otherwise. So a first qualifying message after a quiet hour creates one incident, and
  all further qualifying messages of the following hour create none.
\<close>

lemma handleLowBatteryAlert_suppressed:
  assumes "e \<in> set events" and "ev_type e = LOW_BATTERY" and "deviceId e = d"
    and "now - 60 * 60 * 1000 \<le> timestamp e"
  shows "handleLowBatteryAlert d level now events = events"
  using assms by (auto simp add: handleLowBatteryAlert_def list_ex_iff)

lemma handleLowBatteryAlert_created:
  assumes "trim d = d" and "d \<noteq> []" and "length d \<le> 50"
    and "\<not> list_ex (\<lambda>e. ev_type e = LOW_BATTERY \<and> deviceId e = d
                       \<and> now - 60 * 60 * 1000 \<le> timestamp e) events"
  shows "\<exists>e. handleLowBatteryAlert d level now events = events @ [e]
           \<and> ev_type e = LOW_BATTERY \<and> deviceId e = d \<and> timestamp e = now
           \<and> severity e = (if level < 10 then high else medium)"
  using assms
  by (simp add: handleLowBatteryAlert_def Event_create_def validates_alertEvent)

lemma handleLowBatteryAlert_one_per_window:
  assumes "trim d = d" and "d \<noteq> []" and "length d \<le> 50"
    and quiet: "\<not> list_ex (\<lambda>e. ev_type e = LOW_BATTERY \<and> deviceId e = d
                       \<and> t0 - 60 * 60 * 1000 \<le> timestamp e) events"
    and window: "list_all (\<lambda>msg. t0 \<le> fst msg \<and> fst msg \<le> t0 + 60 * 60 * 1000) later"
  shows "\<exists>e. foldl (\<lambda>ev msg. handleLowBatteryAlert d (snd msg) (fst msg) ev) events
               ((t0, level0) # later) = events @ [e]
           \<and> ev_type e = LOW_BATTERY \<and> deviceId e = d \<and> timestamp e = t0"
proof -
  from handleLowBatteryAlert_created [OF assms(1-3) quiet, of level0]
  obtain e where first: "handleLowBatteryAlert d level0 t0 events = events @ [e]"
    and e: "ev_type e = LOW_BATTERY" "deviceId e = d" "timestamp e = t0"
    by blast
  have rest: "foldl (\<lambda>ev msg. handleLowBatteryAlert d (snd msg) (fst msg) ev) (events @ [e]) later
                = events @ [e]"
    using window
  proof (induction later)
    case Nil
    then show ?case by simp
  next
    case (Cons msg later)
    then have "fst msg - 60 * 60 * 1000 \<le> timestamp e" using e by simp
    then have "handleLowBatteryAlert d (snd msg) (fst msg) (events @ [e]) = events @ [e]"
      using e by (intro handleLowBatteryAlert_suppressed [of e]) simp_all
    with Cons show ?case by simp
  qed
  from first rest e show ?thesis by auto
qed

subsection \<open>Battery level 0 on the HTTP path (claim C5)\<close>

text \<open>
  Claim C5 says that every level below 20 creates a LOW_BATTERY alert. \<open>checkForAlerts\<close>
  tests the level for truthiness first, so a level of exactly 0 is accepted (201) and
  creates no alert.
\<close>

theorem receiveTelemetry_battery_zero_no_alert:
  "receiveTelemetry
        \<lparr>tb_deviceId = ''stick-001'', tb_timestamp = None,
         tb_sensors = \<lparr>ultrasonicLeft = None, ultrasonicRight = None,
                       battery_level = Some 0, accelerometer = None\<rparr>,
         tb_gps = \<lparr>lat = None, lon = None\<rparr>\<rparr> 1000
        \<lparr>st_telemetry = [], st_events = []\<rparr>
   = (respond 201 True ''Telemetry data received successfully''
        (Some \<lparr>td_deviceId = ''stick-001'', td_timestamp = 1000\<rparr>),
      \<lparr>st_telemetry =
         [\<lparr>tm_deviceId = ''stick-001'', tm_timestamp = 1000,
           tm_sensors = \<lparr>ultrasonicLeft = None, ultrasonicRight = None,
                         battery_level = Some 0, accelerometer = None\<rparr>,
           tm_gps = \<lparr>lat = None, lon = None\<rparr>\<rparr>],
       st_events = []\<rparr>)"
  by (simp add: receiveTelemetry_def new_Telemetry_def validates_telemetry_def inRange_def
        checkForAlerts_def lowBatteryRule_def obstacleRule_def fallRule_def gpsLostRule_def
        orDefault_def truthy_def Event_create_def validates_alertEvent Let_def)

text \<open>The same message on the MQTT path creates the alert, with severity high.\<close>

lemma handleTelemetryMessage_battery_zero_alert:
  "map (\<lambda>e. (ev_type e, deviceId e, severity e))
     (st_events (handleTelemetryMessage ''stick-001''
        \<lparr>tb_deviceId = ''stick-001'', tb_timestamp = None,
         tb_sensors = \<lparr>ultrasonicLeft = None, ultrasonicRight = None,
                       battery_level = Some 0, accelerometer = None\<rparr>,
         tb_gps = \<lparr>lat = None, lon = None\<rparr>\<rparr> 1000
        \<lparr>st_telemetry = [], st_events = []\<rparr>))
   = [(LOW_BATTERY, ''stick-001'', high)]"
  by (simp add: handleTelemetryMessage_def new_Telemetry_def validates_telemetry_def inRange_def
        handleLowBatteryAlert_def checkCriticalSensorReadings_def below_def
        orDefault_def Event_create_def validates_alertEvent Let_def)

text \<open>
  For every other level the HTTP rule is the claimed one: an alert exactly below 20, high
  below 10 and medium otherwise; 19.99 alerts and 20 does not.
\<close>

lemma lowBatteryRule_nonzero_level:
  assumes "battery_level s = Some level" and "level \<noteq> 0"
  shows "lowBatteryRule s =
           (if level < 20
            then [\<lparr>alert_type = LOW_BATTERY,
                   alert_severity = (if level < 10 then high else medium),
                   alert_threshold = Some 20, alert_value = Some level\<rparr>]
            else [])"
  using assms by (simp add: lowBatteryRule_def)

lemma lowBatteryRule_thresholds:
  "map alert_severity (lowBatteryRule
      \<lparr>ultrasonicLeft = None, ultrasonicRight = None, battery_level = Some (1999 / 100),
       accelerometer = None\<rparr>) = [medium]"
  "lowBatteryRule
      \<lparr>ultrasonicLeft = None, ultrasonicRight = None, battery_level = Some 20,
       accelerometer = None\<rparr> = []"
  "map alert_severity (lowBatteryRule
      \<lparr>ultrasonicLeft = None, ultrasonicRight = None, battery_level = Some 8,
       accelerometer = None\<rparr>) = [high]"
  by (simp_all add: lowBatteryRule_def)

subsection \<open>Obstacle severity on the MQTT path (claim C6)\<close>

text \<open>
  Claim C6 says that on every ingestion path an obstacle closer than 15 cm has severity
  high. \<open>checkCriticalSensorReadings\<close>, the rule of the MQTT telemetry handler, always
  writes medium: readings of 10 cm and 200 cm create an OBSTACLE_DETECTED incident of
  severity medium.
\<close>

theorem handleTelemetryMessage_obstacle_always_medium:
  "map (\<lambda>e. (ev_type e, deviceId e, severity e, alertValue (metadata e)))
     (st_events (handleTelemetryMessage ''stick-001''
        \<lparr>tb_deviceId = ''stick-001'', tb_timestamp = None,
         tb_sensors = \<lparr>ultrasonicLeft = Some 10, ultrasonicRight = Some 200,
                       battery_level = None, accelerometer = None\<rparr>,
         tb_gps = \<lparr>lat = None, lon = None\<rparr>\<rparr> 1000
        \<lparr>st_telemetry = [], st_events = []\<rparr>))
   = [(OBSTACLE_DETECTED, ''stick-001'', medium, Some 10)]"
  by (simp add: handleTelemetryMessage_def new_Telemetry_def validates_telemetry_def inRange_def
        handleLowBatteryAlert_def checkCriticalSensorReadings_def below_def
        orDefault_def Event_create_def validates_alertEvent Let_def)

text \<open>The same readings on the HTTP path are graded high.\<close>

lemma receiveTelemetry_obstacle_graded:
  "map (\<lambda>e. (ev_type e, deviceId e, severity e, alertValue (metadata e)))
     (st_events (snd (receiveTelemetry
        \<lparr>tb_deviceId = ''stick-001'', tb_timestamp = None,
         tb_sensors = \<lparr>ultrasonicLeft = Some 10, ultrasonicRight = Some 200,
                       battery_level = None, accelerometer = None\<rparr>,
         tb_gps = \<lparr>lat = None, lon = None\<rparr>\<rparr> 1000
        \<lparr>st_telemetry = [], st_events = []\<rparr>)))
   = [(OBSTACLE_DETECTED, ''stick-001'', high, Some 10)]"
  by (simp add: receiveTelemetry_def new_Telemetry_def validates_telemetry_def inRange_def
        checkForAlerts_def lowBatteryRule_def obstacleRule_def fallRule_def gpsLostRule_def
        orDefault_def truthy_def Event_create_def validates_alertEvent Let_def)

text \<open>
  On the HTTP path a reading of exactly 0 counts as absent (\<open>ultrasonicLeft || 1000\<close>), so an
  obstacle at 0 cm creates no alert there.
\<close>

lemma receiveTelemetry_obstacle_zero_reading:
  "st_events (snd (receiveTelemetry
        \<lparr>tb_deviceId = ''stick-001'', tb_timestamp = None,
         tb_sensors = \<lparr>ultrasonicLeft = Some 0, ultrasonicRight = Some 200,
                       battery_level = None, accelerometer = None\<rparr>,
         tb_gps = \<lparr>lat = None, lon = None\<rparr>\<rparr> 1000
        \<lparr>st_telemetry = [], st_events = []\<rparr>)) = []"
  by (simp add: receiveTelemetry_def new_Telemetry_def validates_telemetry_def inRange_def
        checkForAlerts_def lowBatteryRule_def obstacleRule_def fallRule_def gpsLostRule_def
        orDefault_def truthy_def Event_create_def validates_alertEvent Let_def)

section \<open>Command dispatch\<close>

subsection \<open>Bulk dispatch (claim C8)\<close>








subsection \<open>Parameters of a single dispatch (claim C9)\<close>




end
